theory Spec2Isabelle
  imports Main
begin

section \<open>Values exchanged with the collaborators\<close>

text \<open>
  The handlers of \<^verbatim>\<open>ent/http\<close> are straight-line Go functions that talk to five
  collaborators: the JSON decoder, the validator, the ent client, the sheriff serializer
  and the zap logger, and that finish with one call of the render package. The model
  turns every such call into a value: what a handler does is the list of the calls it
  makes, in order (its trace).
\<close>

subsection \<open>JSON values\<close>

text \<open>
  A request body that holds a JSON value. A number literal without fraction and exponent
  is \<open>JInt\<close>, any other number literal is \<open>JFrac\<close> (kept as its text).
\<close>

datatype json =
    JNull
  | JBool bool
  | JInt int
  | JFrac string
  | JString string
  | JArray "json list"
  | JObject "(string \<times> json) list"

subsection \<open>Errors\<close>

text \<open>
  \<open>FieldError\<close> is one entry of the validator's \<open>ValidationErrors\<close>: the struct field,
  the failed tag and its parameter.
\<close>

datatype FieldError = FieldError (Field: string) (Tag: string) (Param: string)

text \<open>
  The error values the handlers can meet, one constructor per Go error type:
  \<open>SyntaxError\<close> and \<open>UnmarshalTypeError\<close> of encoding/json, \<open>NumError\<close> of strconv
  (with the text that failed to parse), \<open>InvalidValidationError\<close> and
  \<open>ValidationErrors\<close> of the validator, \<open>NotFoundError\<close>, \<open>NotSingularError\<close> and
  \<open>ConstraintError\<close> of ent, and \<open>OtherError\<close> for every other error (a driver
  error, a serialization error).
\<close>

datatype go_error =
    SyntaxError
  | UnmarshalTypeError
  | NumError string
  | InvalidValidationError
  | ValidationErrors "FieldError list"
  | NotFoundError string
  | NotSingularError string
  | ConstraintError string
  | OtherError string

fun IsNotFound :: "go_error \<Rightarrow> bool" where
  "IsNotFound (NotFoundError _) = True"
| "IsNotFound _ = False"

fun IsNotSingular :: "go_error \<Rightarrow> bool" where
  "IsNotSingular (NotSingularError _) = True"
| "IsNotSingular _ = False"

fun IsConstraintError :: "go_error \<Rightarrow> bool" where
  "IsConstraintError (ConstraintError _) = True"
| "IsConstraintError _ = False"

subsection \<open>Entities and their rendering\<close>

text \<open>
  Modelled from the spec: the Persisted Entity. The generated structs \<^verbatim>\<open>ent.Group\<close>,
  \<^verbatim>\<open>ent.Pet\<close> and \<^verbatim>\<open>ent.User\<close> are not among the sources; the handlers read only
  the field \<^verbatim>\<open>ID\<close> of them. Following the spec's data model, an entity has a unique integer
  identifier, fields that may carry serialization group tags, and named relations to
  other entities, each relation with its group tags and the targets that were loaded.
\<close>

datatype field = Entity_field (field_name: string) (field_groups: "string list")
                              (field_value: json)

datatype entity = Entity (ID: int) (entity_fields: "field list") (relations: "relation list")
  and relation = Relation (relation_name: string) (relation_groups: "string list")
                          (targets: "entity list")

text \<open>
  Modelled from the spec: the output of the Serializer, an ordered key to value
  structure. The explicitly empty value is the object without members, \<open>Object []\<close>.
\<close>

datatype rendered =
    Scalar json
  | Object "(string \<times> rendered) list"
  | Sequence "rendered list"

text \<open>The options the handlers pass to \<^verbatim>\<open>sheriff.Marshal\<close>.\<close>

record Options =
  IncludeEmptyTag :: bool
  Groups :: "string list"

text \<open>
  \<^verbatim>\<open>sheriff.Marshal\<close> is a library function. The handlers take it as a parameter: from
  the options and the entity pointer (\<open>None\<close> is the nil pointer) to an error or the
  data to render.
\<close>

type_synonym Marshal = "Options \<Rightarrow> entity option \<Rightarrow> go_error + rendered"

subsection \<open>The ent client\<close>

datatype kind = Group | Pet | User

text \<open>The setters a handler calls on a create builder, in the order of the calls.\<close>

datatype setter =
    SetName string
  | SetAge int
  | SetOwnerID int
  | AddPetIDs "int list"

text \<open>
  A query: the identifier of \<^verbatim>\<open>Where(pet.ID(id))\<close> and the edges to load eagerly
  (\<^verbatim>\<open>WithPets\<close>).
\<close>

datatype query = Query (where_ID: int) (eager: "string list")

text \<open>
  The client is the database seen from one request. \<^verbatim>\<open>Save\<close> and \<^verbatim>\<open>Only\<close> have
  the Go result type \<^verbatim>\<open>(*ent.Pet, error)\<close>: a pointer that may be nil and an error that
  may be nil. In the spec's Data Access Port a call gives either an entity or a typed
  failure, which in Go is a nil pointer beside every error; the model keeps the Go type,
  so the handlers are defined on every pair. The two calls of one request are independent
  round trips, so what \<open>Only\<close> answers is not tied to what \<open>Save\<close> answered.
\<close>

record Client =
  Save :: "kind \<Rightarrow> setter list \<Rightarrow> entity option \<times> go_error option"
  Only :: "kind \<Rightarrow> query \<Rightarrow> entity option \<times> go_error option"

subsection \<open>Log entries, responses and traces\<close>

datatype Level = InfoLevel | ErrorLevel

datatype zap_Field =
    zap_String string string
  | zap_Int string int
  | zap_Error go_error

text \<open>
  The last argument of the render functions is a Go \<^verbatim>\<open>interface{}\<close>: the handlers pass
  nil, a string or an error.
\<close>

datatype payload = Nil_payload | String_payload string | Error_payload go_error

datatype response =
    OK rendered
  | BadRequest payload
  | NotFound payload
  | InternalServerError payload

fun status_code :: "response \<Rightarrow> nat" where
  "status_code (OK _) = 200"
| "status_code (BadRequest _) = 400"
| "status_code (NotFound _) = 404"
| "status_code (InternalServerError _) = 500"

text \<open>
  One step of a handler that is visible outside it. \<open>Panic\<close> is the run-time panic of a
  nil pointer dereference: the handler stops there and writes nothing more.
\<close>

datatype event =
    Log Level string "zap_Field list"
  | Call_Save kind "setter list"
  | Call_Only kind query
  | Render response
  | Panic

fun responses :: "event list \<Rightarrow> response list" where
  "responses [] = []"
| "responses (Render r # t) = r # responses t"
| "responses (_ # t) = responses t"

fun log_entries :: "event list \<Rightarrow> (Level \<times> string \<times> zap_Field list) list" where
  "log_entries [] = []"
| "log_entries (Log lv m fs # t) = (lv, m, fs) # log_entries t"
| "log_entries (_ # t) = log_entries t"

fun is_storage_call :: "event \<Rightarrow> bool" where
  "is_storage_call (Call_Save _ _) = True"
| "is_storage_call (Call_Only _ _) = True"
| "is_storage_call _ = False"

definition storage_calls :: "event list \<Rightarrow> event list" where
  "storage_calls t = filter is_storage_call t"

text \<open>The builders that a trace hands to \<^verbatim>\<open>Save\<close>, with their kinds.\<close>

fun save_calls :: "event list \<Rightarrow> (kind \<times> setter list) list" where
  "save_calls [] = []"
| "save_calls (Call_Save k b # t) = (k, b) # save_calls t"
| "save_calls (_ # t) = save_calls t"

subsection \<open>The handler struct\<close>

text \<open>
  The fields \<^verbatim>\<open>client\<close>, \<^verbatim>\<open>log\<close> and \<^verbatim>\<open>validator\<close> of the Go struct. The logger is
  the list of fields it adds to every entry. The validator is the integrator's
  \<^verbatim>\<open>*validator.Validate\<close>, seen through its method \<^verbatim>\<open>Struct\<close> on the handler's request
  type: \<open>None\<close> is the nil error. \<^verbatim>\<open>stripEntError\<close> is a helper of the package that is
  not among the sources; it is taken as a field too.
\<close>

record 'req handler =
  client :: Client
  log :: "zap_Field list"
  validator :: "'req \<Rightarrow> go_error option"
  stripEntError :: "go_error \<Rightarrow> string"

section \<open>Read\<close>

subsection \<open>strconv.Atoi\<close>

text \<open>
  \<^verbatim>\<open>strconv.Atoi\<close> of the Go standard library: an optional sign \<^verbatim>\<open>+\<close> or \<^verbatim>\<open>-\<close>,
  then one or more decimal digits, and the value must fit Go's \<^verbatim>\<open>int\<close> (64 bits).
  Everything else is a \<^verbatim>\<open>*NumError\<close>.
\<close>

definition is_digit :: "char \<Rightarrow> bool" where
  "is_digit ch \<longleftrightarrow> (48::nat) \<le> of_char ch \<and> of_char ch \<le> (57::nat)"

fun digits_value :: "int \<Rightarrow> string \<Rightarrow> int" where
  "digits_value n [] = n"
| "digits_value n (ch # s) = digits_value (n * 10 + (int (of_char ch) - 48)) s"

definition fits_int :: "int \<Rightarrow> bool" where
  "fits_int n \<longleftrightarrow> - (2 ^ 63) \<le> n \<and> n < 2 ^ 63"

definition strconv_Atoi :: "string \<Rightarrow> go_error + int" where
  "strconv_Atoi s0 =
     (case s0 of
        [] \<Rightarrow> Inl (NumError s0)
      | c # cs \<Rightarrow>
          (let s = (if c = CHR ''-'' \<or> c = CHR ''+'' then cs else s0) in
           if s \<noteq> [] \<and> list_all is_digit s then
             (let n = digits_value 0 s;
                  n = (if c = CHR ''-'' then - n else n)
              in if fits_int n then Inr n else Inl (NumError s0))
           else Inl (NumError s0)))"

subsection \<open>The three Read handlers\<close>

text \<open>
  The argument \<open>id_param\<close> is \<^verbatim>\<open>chi.URLParam(r, "id")\<close>. Each handler is the Go function
  read top to bottom; every \<^verbatim>\<open>return\<close> ends the trace.
\<close>

definition GroupHandler_Read :: "'req handler \<Rightarrow> Marshal \<Rightarrow> string \<Rightarrow> event list" where
  "GroupHandler_Read h marshal id_param =
     (let l = log h @ [zap_String ''method'' ''Read''] in
      case strconv_Atoi id_param of
        Inl err \<Rightarrow>
          [Log ErrorLevel ''error getting id from url parameter''
             (l @ [zap_String ''id'' id_param, zap_Error err]),
           Render (BadRequest (String_payload ''id must be an integer greater zero''))]
      | Inr i \<Rightarrow>
          Call_Only Group (Query i []) #
          (case Only (client h) Group (Query i []) of
             (e, Some err) \<Rightarrow>
               (if IsNotFound err then
                  [Log InfoLevel (stripEntError h err) (l @ [zap_Int ''id'' i, zap_Error err]),
                   Render (NotFound (String_payload (stripEntError h err)))]
                else if IsNotSingular err then
                  [Log ErrorLevel (stripEntError h err) (l @ [zap_Int ''id'' i, zap_Error err]),
                   Render (BadRequest (String_payload (stripEntError h err)))]
                else
                  [Log ErrorLevel ''error fetching group from db''
                     (l @ [zap_Int ''id'' i, zap_Error err]),
                   Render (InternalServerError Nil_payload)])
           | (e, None) \<Rightarrow>
               (case marshal \<lparr>IncludeEmptyTag = True, Groups = [''group'']\<rparr> e of
                  Inl err \<Rightarrow>
                    [Log ErrorLevel ''serialization error'' (l @ [zap_Int ''id'' i, zap_Error err]),
                     Render (InternalServerError Nil_payload)]
                | Inr d \<Rightarrow>
                    [Log InfoLevel ''group rendered'' (l @ [zap_Int ''id'' i]),
                     Render (OK d)])))"

definition PetHandler_Read :: "'req handler \<Rightarrow> Marshal \<Rightarrow> string \<Rightarrow> event list" where
  "PetHandler_Read h marshal id_param =
     (let l = log h @ [zap_String ''method'' ''Read''] in
      case strconv_Atoi id_param of
        Inl err \<Rightarrow>
          [Log ErrorLevel ''error getting id from url parameter''
             (l @ [zap_String ''id'' id_param, zap_Error err]),
           Render (BadRequest (String_payload ''id must be an integer greater zero''))]
      | Inr i \<Rightarrow>
          Call_Only Pet (Query i []) #
          (case Only (client h) Pet (Query i []) of
             (e, Some err) \<Rightarrow>
               (if IsNotFound err then
                  [Log InfoLevel (stripEntError h err) (l @ [zap_Int ''id'' i, zap_Error err]),
                   Render (NotFound (String_payload (stripEntError h err)))]
                else if IsNotSingular err then
                  [Log ErrorLevel (stripEntError h err) (l @ [zap_Int ''id'' i, zap_Error err]),
                   Render (BadRequest (String_payload (stripEntError h err)))]
                else
                  [Log ErrorLevel ''error fetching pet from db''
                     (l @ [zap_Int ''id'' i, zap_Error err]),
                   Render (InternalServerError Nil_payload)])
           | (e, None) \<Rightarrow>
               (case marshal \<lparr>IncludeEmptyTag = True, Groups = [''pet'']\<rparr> e of
                  Inl err \<Rightarrow>
                    [Log ErrorLevel ''serialization error'' (l @ [zap_Int ''id'' i, zap_Error err]),
                     Render (InternalServerError Nil_payload)]
                | Inr d \<Rightarrow>
                    [Log InfoLevel ''pet rendered'' (l @ [zap_Int ''id'' i]),
                     Render (OK d)])))"

definition UserHandler_Read :: "'req handler \<Rightarrow> Marshal \<Rightarrow> string \<Rightarrow> event list" where
  "UserHandler_Read h marshal id_param =
     (let l = log h @ [zap_String ''method'' ''Read''] in
      case strconv_Atoi id_param of
        Inl err \<Rightarrow>
          [Log ErrorLevel ''error getting id from url parameter''
             (l @ [zap_String ''id'' id_param, zap_Error err]),
           Render (BadRequest (String_payload ''id must be an integer greater zero''))]
      | Inr i \<Rightarrow>
          Call_Only User (Query i [''pets'']) #
          (case Only (client h) User (Query i [''pets'']) of
             (e, Some err) \<Rightarrow>
               (if IsNotFound err then
                  [Log InfoLevel (stripEntError h err) (l @ [zap_Int ''id'' i, zap_Error err]),
                   Render (NotFound (String_payload (stripEntError h err)))]
                else if IsNotSingular err then
                  [Log ErrorLevel (stripEntError h err) (l @ [zap_Int ''id'' i, zap_Error err]),
                   Render (BadRequest (String_payload (stripEntError h err)))]
                else
                  [Log ErrorLevel ''error fetching user from db''
                     (l @ [zap_Int ''id'' i, zap_Error err]),
                   Render (InternalServerError Nil_payload)])
           | (e, None) \<Rightarrow>
               (case marshal \<lparr>IncludeEmptyTag = True, Groups = [''user'']\<rparr> e of
                  Inl err \<Rightarrow>
                    [Log ErrorLevel ''serialization error'' (l @ [zap_Int ''id'' i, zap_Error err]),
                     Render (InternalServerError Nil_payload)]
                | Inr d \<Rightarrow>
                    [Log InfoLevel ''user rendered'' (l @ [zap_Int ''id'' i]),
                     Render (OK d)])))"

section \<open>Create\<close>

subsection \<open>The request structs\<close>

text \<open>A pointer field is an option: \<open>None\<close> is nil. \<^verbatim>\<open>Pets\<close> is a slice, nil or not.\<close>

datatype GroupCreateRequest = GroupCreateRequest

record PetCreateRequest =
  Name :: "string option"
  Age :: "int option"
  Owner :: "int option"

record UserCreateRequest =
  Name :: "string option"
  Age :: "int option"
  Pets :: "int list option"

subsection \<open>json.NewDecoder(r.Body).Decode\<close>

text \<open>
  The body of a request is \<open>None\<close> when no JSON value can be read from it (it is empty
  or not well formed) and the value otherwise. Decoding a value into a struct follows
  encoding/json: \<^verbatim>\<open>null\<close> leaves the struct as it is, an object sets the fields its keys
  name and skips every other key, and any other value is an \<^verbatim>\<open>*UnmarshalTypeError\<close>.
  A key names a field when it equals the field's JSON name up to case (with the two
  non-ASCII letters that Go folds to \<^verbatim>\<open>s\<close> and \<^verbatim>\<open>k\<close>).
\<close>

definition is_letter :: "char \<Rightarrow> bool" where
  "is_letter ch \<longleftrightarrow>
     (let n = of_char ch :: nat in (65 \<le> n \<and> n \<le> 90) \<or> (97 \<le> n \<and> n \<le> 122))"

definition caseMask :: "char \<Rightarrow> nat" where
  "caseMask ch = (let n = of_char ch :: nat in if (n div 32) mod 2 = 1 then n - 32 else n)"

fun equalFold :: "string \<Rightarrow> string \<Rightarrow> bool" where
  "equalFold [] t = (t = [])"
| "equalFold (sb # s) [] = False"
| "equalFold (sb # s) (tb # t) =
     (if (of_char tb :: nat) < 128 then
        (sb = tb \<or> (is_letter sb \<and> caseMask sb = caseMask tb)) \<and> equalFold s t
      else if sb = CHR ''s'' \<or> sb = CHR ''S'' then
        (case t of
           t1 # t' \<Rightarrow> tb = CHR 0xC5 \<and> t1 = CHR 0xBF \<and> equalFold s t'
         | [] \<Rightarrow> False)
      else if sb = CHR ''k'' \<or> sb = CHR ''K'' then
        (case t of
           t1 # t2 # t' \<Rightarrow> tb = CHR 0xE2 \<and> t1 = CHR 0x84 \<and> t2 = CHR 0xAA \<and> equalFold s t'
         | _ \<Rightarrow> False)
      else False)"

text \<open>
  A value into a \<^verbatim>\<open>*string\<close>, a \<^verbatim>\<open>*int\<close>, an \<^verbatim>\<open>int\<close> element of a slice and a
  \<^verbatim>\<open>[]int\<close>. \<^verbatim>\<open>null\<close> sets a pointer or a slice to nil and leaves an \<^verbatim>\<open>int\<close> at zero.
\<close>

fun decode_string_ptr :: "json \<Rightarrow> go_error + string option" where
  "decode_string_ptr JNull = Inr None"
| "decode_string_ptr (JString s) = Inr (Some s)"
| "decode_string_ptr _ = Inl UnmarshalTypeError"

fun decode_int_ptr :: "json \<Rightarrow> go_error + int option" where
  "decode_int_ptr JNull = Inr None"
| "decode_int_ptr (JInt n) = (if fits_int n then Inr (Some n) else Inl UnmarshalTypeError)"
| "decode_int_ptr _ = Inl UnmarshalTypeError"

fun decode_int_elem :: "json \<Rightarrow> go_error + int" where
  "decode_int_elem JNull = Inr 0"
| "decode_int_elem (JInt n) = (if fits_int n then Inr n else Inl UnmarshalTypeError)"
| "decode_int_elem _ = Inl UnmarshalTypeError"

fun decode_int_elems :: "json list \<Rightarrow> go_error + int list" where
  "decode_int_elems [] = Inr []"
| "decode_int_elems (v # vs) =
     (case decode_int_elem v of
        Inl err \<Rightarrow> Inl err
      | Inr n \<Rightarrow> (case decode_int_elems vs of Inl err \<Rightarrow> Inl err | Inr ns \<Rightarrow> Inr (n # ns)))"

fun decode_int_slice :: "json \<Rightarrow> go_error + int list option" where
  "decode_int_slice JNull = Inr None"
| "decode_int_slice (JArray vs) =
     (case decode_int_elems vs of Inl err \<Rightarrow> Inl err | Inr ns \<Rightarrow> Inr (Some ns))"
| "decode_int_slice _ = Inl UnmarshalTypeError"

text \<open>The members of an object, in order; a later member overwrites an earlier one.\<close>

fun decode_PetCreateRequest_fields ::
  "(string \<times> json) list \<Rightarrow> PetCreateRequest \<Rightarrow> go_error + PetCreateRequest" where
  "decode_PetCreateRequest_fields [] d = Inr d"
| "decode_PetCreateRequest_fields ((k, v) # kvs) d =
     (if equalFold ''name'' k then
        (case decode_string_ptr v of
           Inl err \<Rightarrow> Inl err
         | Inr x \<Rightarrow> decode_PetCreateRequest_fields kvs (d\<lparr>PetCreateRequest.Name := x\<rparr>))
      else if equalFold ''age'' k then
        (case decode_int_ptr v of
           Inl err \<Rightarrow> Inl err
         | Inr x \<Rightarrow> decode_PetCreateRequest_fields kvs (d\<lparr>PetCreateRequest.Age := x\<rparr>))
      else if equalFold ''owner'' k then
        (case decode_int_ptr v of
           Inl err \<Rightarrow> Inl err
         | Inr x \<Rightarrow> decode_PetCreateRequest_fields kvs (d\<lparr>Owner := x\<rparr>))
      else decode_PetCreateRequest_fields kvs d)"

fun decode_UserCreateRequest_fields ::
  "(string \<times> json) list \<Rightarrow> UserCreateRequest \<Rightarrow> go_error + UserCreateRequest" where
  "decode_UserCreateRequest_fields [] d = Inr d"
| "decode_UserCreateRequest_fields ((k, v) # kvs) d =
     (if equalFold ''name'' k then
        (case decode_string_ptr v of
           Inl err \<Rightarrow> Inl err
         | Inr x \<Rightarrow> decode_UserCreateRequest_fields kvs (d\<lparr>UserCreateRequest.Name := x\<rparr>))
      else if equalFold ''age'' k then
        (case decode_int_ptr v of
           Inl err \<Rightarrow> Inl err
         | Inr x \<Rightarrow> decode_UserCreateRequest_fields kvs (d\<lparr>UserCreateRequest.Age := x\<rparr>))
      else if equalFold ''pets'' k then
        (case decode_int_slice v of
           Inl err \<Rightarrow> Inl err
         | Inr x \<Rightarrow> decode_UserCreateRequest_fields kvs (d\<lparr>Pets := x\<rparr>))
      else decode_UserCreateRequest_fields kvs d)"

text \<open>\<^verbatim>\<open>var d GroupCreateRequest\<close> and its siblings start from the zero value.\<close>

definition Decode_GroupCreateRequest :: "json option \<Rightarrow> go_error + GroupCreateRequest" where
  "Decode_GroupCreateRequest body =
     (case body of
        None \<Rightarrow> Inl SyntaxError
      | Some JNull \<Rightarrow> Inr GroupCreateRequest
      | Some (JObject kvs) \<Rightarrow> Inr GroupCreateRequest
      | Some _ \<Rightarrow> Inl UnmarshalTypeError)"

definition Decode_PetCreateRequest :: "json option \<Rightarrow> go_error + PetCreateRequest" where
  "Decode_PetCreateRequest body =
     (let d = \<lparr>PetCreateRequest.Name = None, PetCreateRequest.Age = None, Owner = None\<rparr> in
      case body of
        None \<Rightarrow> Inl SyntaxError
      | Some JNull \<Rightarrow> Inr d
      | Some (JObject kvs) \<Rightarrow> decode_PetCreateRequest_fields kvs d
      | Some _ \<Rightarrow> Inl UnmarshalTypeError)"

definition Decode_UserCreateRequest :: "json option \<Rightarrow> go_error + UserCreateRequest" where
  "Decode_UserCreateRequest body =
     (let d = \<lparr>UserCreateRequest.Name = None, UserCreateRequest.Age = None, Pets = None\<rparr> in
      case body of
        None \<Rightarrow> Inl SyntaxError
      | Some JNull \<Rightarrow> Inr d
      | Some (JObject kvs) \<Rightarrow> decode_UserCreateRequest_fields kvs d
      | Some _ \<Rightarrow> Inl UnmarshalTypeError)"

subsection \<open>The validator of main.go\<close>

text \<open>
  \<^verbatim>\<open>validator.New()\<close>, as main.go builds it, applied to the three request structs. It
  reads the \<^verbatim>\<open>validate\<close> tags: \<^verbatim>\<open>required\<close> fails on a nil pointer, \<^verbatim>\<open>gt=0\<close> on a
  value that is not greater than zero, a field reports the first of its tags that
  fails, and the errors come in the order of the fields. \<^verbatim>\<open>GroupCreateRequest\<close> and
  \<^verbatim>\<open>UserCreateRequest\<close> carry no tag.
\<close>

definition Struct_GroupCreateRequest :: "GroupCreateRequest \<Rightarrow> go_error option" where
  "Struct_GroupCreateRequest d = None"

definition Struct_PetCreateRequest :: "PetCreateRequest \<Rightarrow> go_error option" where
  "Struct_PetCreateRequest d =
     (let errs =
        (case PetCreateRequest.Age d of
           None \<Rightarrow> [FieldError ''Age'' ''required'' []]
         | Some a \<Rightarrow> if a > 0 then [] else [FieldError ''Age'' ''gt'' ''0'']) @
        (case Owner d of
           None \<Rightarrow> [FieldError ''Owner'' ''required'' []]
         | Some _ \<Rightarrow> [])
      in if errs = [] then None else Some (ValidationErrors errs))"

definition Struct_UserCreateRequest :: "UserCreateRequest \<Rightarrow> go_error option" where
  "Struct_UserCreateRequest d = None"

text \<open>
  The \<^verbatim>\<open>errors\<close> member of an error response, as the blog post shows it for validation
  errors: one message per struct field.
\<close>

definition error_message :: "FieldError \<Rightarrow> string" where
  "error_message fe =
     (if Tag fe = ''required'' then ''This value is required.''
      else ''This value failed validation on '' @ [CHR 0x27] @ Tag fe @ '':'' @ Param fe @
           [CHR 0x27] @ ''.'')"

fun errors_map :: "response \<Rightarrow> (string \<times> string) list" where
  "errors_map (BadRequest (Error_payload (ValidationErrors fes))) =
     map (\<lambda>fe. (Field fe, error_message fe)) fes"
| "errors_map _ = []"

subsection \<open>The three Create handlers\<close>

text \<open>
  The block between \<^verbatim>\<open>b := h.client.Pet.Create()\<close> and \<^verbatim>\<open>b.Save\<close>: the setters called
  on the builder, one \<^verbatim>\<open>if d.X != nil\<close> after the other. The Group builder gets none.
\<close>

definition PetCreate_setters :: "PetCreateRequest \<Rightarrow> setter list" where
  "PetCreate_setters d =
     (let b = [];
          b = (case PetCreateRequest.Name d of Some v \<Rightarrow> b @ [SetName v] | None \<Rightarrow> b);
          b = (case PetCreateRequest.Age d of Some v \<Rightarrow> b @ [SetAge v] | None \<Rightarrow> b);
          b = (case Owner d of Some v \<Rightarrow> b @ [SetOwnerID v] | None \<Rightarrow> b)
      in b)"

definition UserCreate_setters :: "UserCreateRequest \<Rightarrow> setter list" where
  "UserCreate_setters d =
     (let b = [];
          b = (case UserCreateRequest.Name d of Some v \<Rightarrow> b @ [SetName v] | None \<Rightarrow> b);
          b = (case UserCreateRequest.Age d of Some v \<Rightarrow> b @ [SetAge v] | None \<Rightarrow> b);
          b = (case Pets d of Some v \<Rightarrow> b @ [AddPetIDs v] | None \<Rightarrow> b)
      in b)"

text \<open>
  The argument \<open>body\<close> is \<^verbatim>\<open>r.Body\<close>. After \<^verbatim>\<open>e, err = q.Only(...)\<close> the variable \<^verbatim>\<open>e\<close>
  is the pointer that \<^verbatim>\<open>Only\<close> returned; reading \<^verbatim>\<open>e.ID\<close> of a nil pointer panics.
\<close>

definition GroupHandler_Create ::
  "GroupCreateRequest handler \<Rightarrow> Marshal \<Rightarrow> json option \<Rightarrow> event list" where
  "GroupHandler_Create h marshal body =
     (let l = log h @ [zap_String ''method'' ''Create''] in
      case Decode_GroupCreateRequest body of
        Inl err \<Rightarrow>
          [Log ErrorLevel ''error decoding json'' (l @ [zap_Error err]),
           Render (BadRequest (String_payload ''invalid json string''))]
      | Inr d \<Rightarrow>
          (case validator h d of
             Some err \<Rightarrow>
               (if err = InvalidValidationError then
                  [Log ErrorLevel ''error validating request data'' (l @ [zap_Error err]),
                   Render (InternalServerError Nil_payload)]
                else
                  [Log InfoLevel ''validation failed'' (l @ [zap_Error err]),
                   Render (BadRequest (Error_payload err))])
           | None \<Rightarrow>
               (let b = [] in
                Call_Save Group b #
                (case Save (client h) Group b of
                   (e, Some err) \<Rightarrow>
                     [Log ErrorLevel ''error saving group'' (l @ [zap_Error err]),
                      Render (InternalServerError Nil_payload)]
                 | (None, None) \<Rightarrow> [Panic]
                 | (Some e0, None) \<Rightarrow>
                     Call_Only Group (Query (ID e0) []) #
                     (case Only (client h) Group (Query (ID e0) []) of
                        (e, Some err) \<Rightarrow>
                          (case err of
                             NotFoundError _ \<Rightarrow>
                               (case e of
                                  None \<Rightarrow> [Panic]
                                | Some e1 \<Rightarrow>
                                    [Log InfoLevel (stripEntError h err)
                                       (l @ [zap_Int ''id'' (ID e1), zap_Error err]),
                                     Render (NotFound (String_payload (stripEntError h err)))])
                           | _ \<Rightarrow>
                               (case e of
                                  None \<Rightarrow> [Panic]
                                | Some e1 \<Rightarrow>
                                    [Log ErrorLevel ''error fetching group from db''
                                       (l @ [zap_Int ''id'' (ID e1), zap_Error err]),
                                     Render (InternalServerError Nil_payload)]))
                      | (e, None) \<Rightarrow>
                          (case marshal \<lparr>IncludeEmptyTag = True, Groups = [''group'']\<rparr> e of
                             Inl err \<Rightarrow>
                               (case e of
                                  None \<Rightarrow> [Panic]
                                | Some e1 \<Rightarrow>
                                    [Log ErrorLevel ''serialization error''
                                       (l @ [zap_Int ''id'' (ID e1), zap_Error err]),
                                     Render (InternalServerError Nil_payload)])
                           | Inr j \<Rightarrow>
                               (case e of
                                  None \<Rightarrow> [Panic]
                                | Some e1 \<Rightarrow>
                                    [Log InfoLevel ''group rendered'' (l @ [zap_Int ''id'' (ID e1)]),
                                     Render (OK j)])))))))"

definition PetHandler_Create ::
  "PetCreateRequest handler \<Rightarrow> Marshal \<Rightarrow> json option \<Rightarrow> event list" where
  "PetHandler_Create h marshal body =
     (let l = log h @ [zap_String ''method'' ''Create''] in
      case Decode_PetCreateRequest body of
        Inl err \<Rightarrow>
          [Log ErrorLevel ''error decoding json'' (l @ [zap_Error err]),
           Render (BadRequest (String_payload ''invalid json string''))]
      | Inr d \<Rightarrow>
          (case validator h d of
             Some err \<Rightarrow>
               (if err = InvalidValidationError then
                  [Log ErrorLevel ''error validating request data'' (l @ [zap_Error err]),
                   Render (InternalServerError Nil_payload)]
                else
                  [Log InfoLevel ''validation failed'' (l @ [zap_Error err]),
                   Render (BadRequest (Error_payload err))])
           | None \<Rightarrow>
               (let b = PetCreate_setters d in
                Call_Save Pet b #
                (case Save (client h) Pet b of
                   (e, Some err) \<Rightarrow>
                     [Log ErrorLevel ''error saving pet'' (l @ [zap_Error err]),
                      Render (InternalServerError Nil_payload)]
                 | (None, None) \<Rightarrow> [Panic]
                 | (Some e0, None) \<Rightarrow>
                     Call_Only Pet (Query (ID e0) []) #
                     (case Only (client h) Pet (Query (ID e0) []) of
                        (e, Some err) \<Rightarrow>
                          (case err of
                             NotFoundError _ \<Rightarrow>
                               (case e of
                                  None \<Rightarrow> [Panic]
                                | Some e1 \<Rightarrow>
                                    [Log InfoLevel (stripEntError h err)
                                       (l @ [zap_Int ''id'' (ID e1), zap_Error err]),
                                     Render (NotFound (String_payload (stripEntError h err)))])
                           | _ \<Rightarrow>
                               (case e of
                                  None \<Rightarrow> [Panic]
                                | Some e1 \<Rightarrow>
                                    [Log ErrorLevel ''error fetching pet from db''
                                       (l @ [zap_Int ''id'' (ID e1), zap_Error err]),
                                     Render (InternalServerError Nil_payload)]))
                      | (e, None) \<Rightarrow>
                          (case marshal \<lparr>IncludeEmptyTag = True, Groups = [''pet'']\<rparr> e of
                             Inl err \<Rightarrow>
                               (case e of
                                  None \<Rightarrow> [Panic]
                                | Some e1 \<Rightarrow>
                                    [Log ErrorLevel ''serialization error''
                                       (l @ [zap_Int ''id'' (ID e1), zap_Error err]),
                                     Render (InternalServerError Nil_payload)])
                           | Inr j \<Rightarrow>
                               (case e of
                                  None \<Rightarrow> [Panic]
                                | Some e1 \<Rightarrow>
                                    [Log InfoLevel ''pet rendered'' (l @ [zap_Int ''id'' (ID e1)]),
                                     Render (OK j)])))))))"

definition UserHandler_Create ::
  "UserCreateRequest handler \<Rightarrow> Marshal \<Rightarrow> json option \<Rightarrow> event list" where
  "UserHandler_Create h marshal body =
     (let l = log h @ [zap_String ''method'' ''Create''] in
      case Decode_UserCreateRequest body of
        Inl err \<Rightarrow>
          [Log ErrorLevel ''error decoding json'' (l @ [zap_Error err]),
           Render (BadRequest (String_payload ''invalid json string''))]
      | Inr d \<Rightarrow>
          (case validator h d of
             Some err \<Rightarrow>
               (if err = InvalidValidationError then
                  [Log ErrorLevel ''error validating request data'' (l @ [zap_Error err]),
                   Render (InternalServerError Nil_payload)]
                else
                  [Log InfoLevel ''validation failed'' (l @ [zap_Error err]),
                   Render (BadRequest (Error_payload err))])
           | None \<Rightarrow>
               (let b = UserCreate_setters d in
                Call_Save User b #
                (case Save (client h) User b of
                   (e, Some err) \<Rightarrow>
                     [Log ErrorLevel ''error saving user'' (l @ [zap_Error err]),
                      Render (InternalServerError Nil_payload)]
                 | (None, None) \<Rightarrow> [Panic]
                 | (Some e0, None) \<Rightarrow>
                     Call_Only User (Query (ID e0) []) #
                     (case Only (client h) User (Query (ID e0) []) of
                        (e, Some err) \<Rightarrow>
                          (case err of
                             NotFoundError _ \<Rightarrow>
                               (case e of
                                  None \<Rightarrow> [Panic]
                                | Some e1 \<Rightarrow>
                                    [Log InfoLevel (stripEntError h err)
                                       (l @ [zap_Int ''id'' (ID e1), zap_Error err]),
                                     Render (NotFound (String_payload (stripEntError h err)))])
                           | _ \<Rightarrow>
                               (case e of
                                  None \<Rightarrow> [Panic]
                                | Some e1 \<Rightarrow>
                                    [Log ErrorLevel ''error fetching user from db''
                                       (l @ [zap_Int ''id'' (ID e1), zap_Error err]),
                                     Render (InternalServerError Nil_payload)]))
                      | (e, None) \<Rightarrow>
                          (case marshal \<lparr>IncludeEmptyTag = True, Groups = [''user'']\<rparr> e of
                             Inl err \<Rightarrow>
                               (case e of
                                  None \<Rightarrow> [Panic]
                                | Some e1 \<Rightarrow>
                                    [Log ErrorLevel ''serialization error''
                                       (l @ [zap_Int ''id'' (ID e1), zap_Error err]),
                                     Render (InternalServerError Nil_payload)])
                           | Inr j \<Rightarrow>
                               (case e of
                                  None \<Rightarrow> [Panic]
                                | Some e1 \<Rightarrow>
                                    [Log InfoLevel ''user rendered'' (l @ [zap_Int ''id'' (ID e1)]),
                                     Render (OK j)])))))))"

section \<open>The Serializer\<close>

text \<open>
  Modelled from the spec: the Serializer (\<^verbatim>\<open>sheriff.Marshal\<close> and the struct tags of the
  generated entities are not among the sources). Given an entity and the active group set
  it produces an ordered key to value structure: the identifier, every field without a
  group tag and every group-tagged field whose tags intersect the active set. The spec
  disagrees with itself about a relation whose tags do not intersect the active set
  (section 4.5: an explicitly empty placeholder, never omitted; section 8: omitted). The
  model follows the sample responses of the blog post: an entity that has relations
  renders them under the one key \<^verbatim>\<open>edges\<close>, whose object has a member for each relation
  whose tags intersect the active set (the serializer recurses into its targets) and
  none for any other relation, so that it is the empty object when no relation is
  expanded; an entity without relations has no such key. The members are listed in the
  order of the spec's example, the identifier first; the order carries no meaning, a JSON
  object being unordered (the blog post prints the top-level members sorted by key).
\<close>

definition intersects :: "string list \<Rightarrow> string list \<Rightarrow> bool" where
  "intersects tags active = list_ex (\<lambda>t. t \<in> set active) tags"

definition emitted :: "string list \<Rightarrow> field \<Rightarrow> bool" where
  "emitted active f = (if field_groups f = [] then True else intersects (field_groups f) active)"

primrec serialize :: "string list \<Rightarrow> entity \<Rightarrow> rendered"
  and serialize_relation :: "string list \<Rightarrow> relation \<Rightarrow> (string \<times> rendered) list" where
  "serialize active (Entity i fs rs) =
     Object ((''id'', Scalar (JInt i)) #
             map (\<lambda>f. (field_name f, Scalar (field_value f))) (filter (emitted active) fs) @
             (if rs = [] then []
              else [(''edges'', Object (concat (map (serialize_relation active) rs)))]))"
| "serialize_relation active (Relation n tags ts) =
     (if intersects tags active then [(n, Sequence (map (serialize active) ts))] else [])"


text \<open>
  The Serializer as the handlers call it, with the groups of the options as the active
  set. Serializing a nil pointer gives \<^verbatim>\<open>null\<close>.
\<close>

definition Serializer :: Marshal where
  "Serializer opts e =
     (case e of
        None \<Rightarrow> Inr (Scalar JNull)
      | Some x \<Rightarrow> Inr (serialize (Groups opts) x))"


section \<open>The logging contract\<close>

text \<open>
  The severity of the log entry that precedes a response, as the handlers write it:
  info before a rendered entity, before a 404 and before the 400 that carries the
  validator's errors; error before every other 400 and before every 500.
\<close>

fun logged_at :: "response \<Rightarrow> Level" where
  "logged_at (OK _) = InfoLevel"
| "logged_at (NotFound _) = InfoLevel"
| "logged_at (BadRequest (Error_payload _)) = InfoLevel"
| "logged_at (BadRequest _) = ErrorLevel"
| "logged_at (InternalServerError _) = ErrorLevel"

text \<open>
  A trace keeps the contract when it has no response, or ends with its one response and
  has one log entry, the entry at the severity of the response and with the fields
  \<open>required\<close>.
\<close>

definition logged_once :: "zap_Field list \<Rightarrow> event list \<Rightarrow> bool" where
  "logged_once required t =
     (case responses t of
        [] \<Rightarrow> True
      | r # rs \<Rightarrow>
          rs = [] \<and> last t = Render r \<and>
          (case log_entries t of
             [] \<Rightarrow> False
           | (lv, m, fs) # es \<Rightarrow>
               es = [] \<and> lv = logged_at r \<and> list_all (\<lambda>f. f \<in> set fs) required))"

text \<open>The fields a Read entry must carry: the operation and the identifier, raw or parsed.\<close>

definition Read_fields :: "string \<Rightarrow> zap_Field list" where
  "Read_fields id_param =
     [zap_String ''method'' ''Read'',
      (case strconv_Atoi id_param of
         Inl err \<Rightarrow> zap_String ''id'' id_param
       | Inr i \<Rightarrow> zap_Int ''id'' i)]"

text \<open>The queries that a trace sends to \<^verbatim>\<open>Only\<close>, with their kinds.\<close>

fun only_calls :: "event list \<Rightarrow> (kind \<times> query) list" where
  "only_calls [] = []"
| "only_calls (Call_Only k q # t) = (k, q) # only_calls t"
| "only_calls (_ # t) = only_calls t"

text \<open>
  The fields a Create entry must carry: the operation and, once the handler has reloaded
  the entity, the identifier of the reloaded entity (what \<^verbatim>\<open>e.ID\<close> reads after
  \<^verbatim>\<open>e, err = q.Only(...)\<close>). Before the reload no identifier is logged.
\<close>

definition Create_fields :: "Client \<Rightarrow> event list \<Rightarrow> zap_Field list" where
  "Create_fields c t =
     zap_String ''method'' ''Create'' #
     (case only_calls t of
        [] \<Rightarrow> []
      | (k, q) # _ \<Rightarrow>
          (case fst (Only c k q) of
             None \<Rightarrow> []
           | Some e \<Rightarrow> [zap_Int ''id'' (ID e)]))"

section \<open>The rendering contract\<close>



section \<open>Example collaborators\<close>

text \<open>
  Concrete collaborators for the examples below: a client that answers every \<^verbatim>\<open>Save\<close>
  with one result and every \<^verbatim>\<open>Only\<close> with another, a stand-in for the helper
  \<^verbatim>\<open>stripEntError\<close>, the handlers as \<^verbatim>\<open>NewPetHandler\<close> of the blog post builds them
  (the logger gets the field \<^verbatim>\<open>handler\<close>), a group, and the pet and the user of the blog
  post with the request bodies that create them: \<open>kuro_alone\<close> is the pet before the
  schemas have relations, \<open>elk_created\<close> the user before the relation \<^verbatim>\<open>pets\<close> is tagged
  with the group \<^verbatim>\<open>user\<close>, \<open>kuro\<close> and \<open>elk\<close> the pet and the user after that.
\<close>

definition fixed_client ::
  "entity option \<times> go_error option \<Rightarrow> entity option \<times> go_error option \<Rightarrow> Client" where
  "fixed_client saved fetched = \<lparr>Save = (\<lambda>k b. saved), Only = (\<lambda>k q. fetched)\<rparr>"

fun strip_label :: "go_error \<Rightarrow> string" where
  "strip_label (NotFoundError label) = label @ '' not found''"
| "strip_label (NotSingularError label) = label @ '' not singular''"
| "strip_label _ = ''error''"

definition NewGroupHandler ::
  "Client \<Rightarrow> zap_Field list \<Rightarrow> (GroupCreateRequest \<Rightarrow> go_error option) \<Rightarrow>
   GroupCreateRequest handler" where
  "NewGroupHandler c l v =
     \<lparr>client = c, log = l @ [zap_String ''handler'' ''GroupHandler''], validator = v,
      stripEntError = strip_label\<rparr>"

definition NewPetHandler ::
  "Client \<Rightarrow> zap_Field list \<Rightarrow> (PetCreateRequest \<Rightarrow> go_error option) \<Rightarrow>
   PetCreateRequest handler" where
  "NewPetHandler c l v =
     \<lparr>client = c, log = l @ [zap_String ''handler'' ''PetHandler''], validator = v,
      stripEntError = strip_label\<rparr>"

definition NewUserHandler ::
  "Client \<Rightarrow> zap_Field list \<Rightarrow> (UserCreateRequest \<Rightarrow> go_error option) \<Rightarrow>
   UserCreateRequest handler" where
  "NewUserHandler c l v =
     \<lparr>client = c, log = l @ [zap_String ''handler'' ''UserHandler''], validator = v,
      stripEntError = strip_label\<rparr>"

definition first_group :: entity where
  "first_group = Entity 1 [] []"

definition kuro :: entity where
  "kuro = Entity 1 [Entity_field ''name'' [] (JString ''Kuro''), Entity_field ''age'' [] (JInt 3)]
            [Relation ''owner'' [] []]"

definition kuro_alone :: entity where
  "kuro_alone =
     Entity 1 [Entity_field ''name'' [] (JString ''Kuro''), Entity_field ''age'' [] (JInt 3)] []"

definition elk_created :: entity where
  "elk_created =
     Entity 1 [Entity_field ''name'' [] (JString ''Elk''), Entity_field ''age'' [] (JInt 30)]
       [Relation ''pets'' [] []]"

definition elk :: entity where
  "elk = Entity 1 [Entity_field ''name'' [] (JString ''Elk''), Entity_field ''age'' [] (JInt 30)]
            [Relation ''pets'' [''user''] [kuro]]"

definition kuro_body :: "json option" where
  "kuro_body = Some (JObject [(''name'', JString ''Kuro''), (''age'', JInt 3), (''owner'', JInt 1)])"

definition bob_body :: "json option" where
  "bob_body = Some (JObject [(''name'', JString ''Bob''), (''age'', JInt (- 2))])"

definition elk_body :: "json option" where
  "elk_body = Some (JObject [(''name'', JString ''Elk''), (''age'', JInt 30), (''owner'', JInt 1)])"

section \<open>Evaluating the examples\<close>

lemmas decode_defs =
  Decode_GroupCreateRequest_def Decode_PetCreateRequest_def Decode_UserCreateRequest_def
  is_letter_def caseMask_def fits_int_def

lemma Atoi_zero: "strconv_Atoi ''0'' = Inr 0"
  by (simp add: strconv_Atoi_def is_digit_def fits_int_def)

lemma Atoi_minus_five: "strconv_Atoi ''-5'' = Inr (- 5)"
  by (simp add: strconv_Atoi_def is_digit_def fits_int_def)

lemma Atoi_one: "strconv_Atoi ''1'' = Inr 1"
  by (simp add: strconv_Atoi_def is_digit_def fits_int_def)

lemma Atoi_word: "strconv_Atoi ''abc'' = Inl (NumError ''abc'')"
  by (simp add: strconv_Atoi_def is_digit_def)

lemma Decode_kuro_body:
  "Decode_PetCreateRequest kuro_body =
     Inr \<lparr>PetCreateRequest.Name = Some ''Kuro'', PetCreateRequest.Age = Some 3, Owner = Some 1\<rparr>"
  by (simp add: decode_defs kuro_body_def)

lemma Decode_bob_body:
  "Decode_PetCreateRequest bob_body =
     Inr \<lparr>PetCreateRequest.Name = Some ''Bob'', PetCreateRequest.Age = Some (- 2), Owner = None\<rparr>"
  by (simp add: decode_defs bob_body_def)

lemma Decode_elk_body:
  "Decode_UserCreateRequest elk_body =
     Inr \<lparr>UserCreateRequest.Name = Some ''Elk'', UserCreateRequest.Age = Some 30, Pets = None\<rparr>"
  by (simp add: decode_defs elk_body_def)

lemma Decode_empty_object:
  "Decode_GroupCreateRequest (Some (JObject [])) = Inr GroupCreateRequest"
  "Decode_PetCreateRequest (Some (JObject [])) =
     Inr \<lparr>PetCreateRequest.Name = None, PetCreateRequest.Age = None, Owner = None\<rparr>"
  by (simp_all add: decode_defs)

lemma setters_elk:
  "UserCreate_setters
     \<lparr>UserCreateRequest.Name = Some ''Elk'', UserCreateRequest.Age = Some 30, Pets = None\<rparr> =
   [SetName ''Elk'', SetAge 30]"
  by (simp add: UserCreate_setters_def)

lemma setters_kuro:
  "PetCreate_setters
     \<lparr>PetCreateRequest.Name = Some ''Kuro'', PetCreateRequest.Age = Some 3, Owner = Some 1\<rparr> =
   [SetName ''Kuro'', SetAge 3, SetOwnerID 1]"
  by (simp add: PetCreate_setters_def)

lemma Struct_kuro:
  "Struct_PetCreateRequest
     \<lparr>PetCreateRequest.Name = Some ''Kuro'', PetCreateRequest.Age = Some 3, Owner = Some 1\<rparr> = None"
  by (simp add: Struct_PetCreateRequest_def)

section \<open>Read: the identifier\<close>

text \<open>
  What holds of the identifier check: a parameter that \<^verbatim>\<open>strconv.Atoi\<close> rejects is
  answered with 400 before the client is called.
\<close>

lemma Read_rejects_what_Atoi_rejects:
  assumes "strconv_Atoi s = Inl err"
  shows "PetHandler_Read h marshal s =
           [Log ErrorLevel ''error getting id from url parameter''
              (log h @ [zap_String ''method'' ''Read'', zap_String ''id'' s, zap_Error err]),
            Render (BadRequest (String_payload ''id must be an integer greater zero''))]"
  using assms by (simp add: PetHandler_Read_def)

text \<open>
  C1. The claim: for every identifier parameter that is not a positive integer
  (non-numeric, zero or negative), Read responds 400 and returns before the client's
  query is invoked. The code checks only that \<^verbatim>\<open>strconv.Atoi\<close> succeeds, although its own
  message says "id must be an integer greater zero": for the parameters \<^verbatim>\<open>0\<close> and
  \<^verbatim>\<open>-5\<close>, whatever the handler and the serializer, the query is sent to the client, and
  with a client that finds no such row the answer is 404, not 400.
\<close>

theorem Read_queries_for_zero_and_negative_id:
  "storage_calls (PetHandler_Read h marshal ''0'') = [Call_Only Pet (Query 0 [])] \<and>
   storage_calls (PetHandler_Read h marshal ''-5'') = [Call_Only Pet (Query (- 5) [])] \<and>
   PetHandler_Read
     (NewPetHandler (fixed_client (None, None) (None, Some (NotFoundError ''pet''))) []
        Struct_PetCreateRequest)
     Serializer ''0'' =
   [Call_Only Pet (Query 0 []),
    Log InfoLevel ''pet not found''
      [zap_String ''handler'' ''PetHandler'', zap_String ''method'' ''Read'', zap_Int ''id'' 0,
       zap_Error (NotFoundError ''pet'')],
    Render (NotFound (String_payload ''pet not found''))]"
  by (simp add: PetHandler_Read_def Atoi_zero Atoi_minus_five storage_calls_def
        fixed_client_def NewPetHandler_def Let_def
      split: prod.splits option.splits sum.splits)

section \<open>NotSingular\<close>

text \<open>
  Read answers a NotSingular fetch with 400. In Create, a reload that ends in an error is
  never answered with 400, whatever the error and the pointer beside it.
\<close>

lemma Read_NotSingular_is_400:
  assumes "strconv_Atoi s = Inr i"
      and "Only (client h) Pet (Query i []) = (e, Some (NotSingularError label))"
  shows "map status_code (responses (PetHandler_Read h marshal s)) = [400]"
  using assms by (simp add: PetHandler_Read_def)

lemma Create_reload_failure_is_never_400:
  assumes "Decode_PetCreateRequest body = Inr d" and "validator h d = None"
      and "Save (client h) Pet (PetCreate_setters d) = (Some e0, None)"
      and "Only (client h) Pet (Query (ID e0) []) = (e, Some err)"
  shows "400 \<notin> set (map status_code (responses (PetHandler_Create h marshal body)))"
  using assms by (simp add: PetHandler_Create_def Let_def split: go_error.split option.split)

text \<open>
  C2. The claim: every fetch by identifier that reports NotSingular, the re-fetch after a
  successful Create included, is answered with 400, never 500. Read does so. Create's
  type switch has no case for \<^verbatim>\<open>*ent.NotSingularError\<close>: the error falls to the default
  branch, which reads \<^verbatim>\<open>e.ID\<close> of the pointer that \<^verbatim>\<open>Only\<close> returned. With the nil
  pointer that ent returns beside an error the handler panics; with a pointer that is not
  nil it answers 500.
\<close>

theorem Create_reload_NotSingular_is_not_400:
  "PetHandler_Read
     (NewPetHandler (fixed_client (None, None) (None, Some (NotSingularError ''pet''))) []
        Struct_PetCreateRequest)
     Serializer ''1'' =
   [Call_Only Pet (Query 1 []),
    Log ErrorLevel ''pet not singular''
      [zap_String ''handler'' ''PetHandler'', zap_String ''method'' ''Read'', zap_Int ''id'' 1,
       zap_Error (NotSingularError ''pet'')],
    Render (BadRequest (String_payload ''pet not singular''))] \<and>
   PetHandler_Create
     (NewPetHandler (fixed_client (Some kuro, None) (None, Some (NotSingularError ''pet''))) []
        Struct_PetCreateRequest)
     Serializer kuro_body =
   [Call_Save Pet [SetName ''Kuro'', SetAge 3, SetOwnerID 1], Call_Only Pet (Query 1 []), Panic] \<and>
   PetHandler_Create
     (NewPetHandler (fixed_client (Some kuro, None) (Some kuro, Some (NotSingularError ''pet''))) []
        Struct_PetCreateRequest)
     Serializer kuro_body =
   [Call_Save Pet [SetName ''Kuro'', SetAge 3, SetOwnerID 1], Call_Only Pet (Query 1 []),
    Log ErrorLevel ''error fetching pet from db''
      [zap_String ''handler'' ''PetHandler'', zap_String ''method'' ''Create'', zap_Int ''id'' 1,
       zap_Error (NotSingularError ''pet'')],
    Render (InternalServerError Nil_payload)]"
  by (simp add: PetHandler_Read_def PetHandler_Create_def Atoi_one Decode_kuro_body Struct_kuro
        setters_kuro fixed_client_def NewPetHandler_def kuro_def)

section \<open>Create: validation\<close>

text \<open>
  C3. For every Create payload that misses a required field (a Pet payload whose age or
  owner is nil after decoding), with the validator of main.go, the handler responds 400,
  the missing field is a key of the error map of the response, and the trace holds no
  storage call.
\<close>

theorem Create_missing_required_field:
  assumes "Decode_PetCreateRequest body = Inr d"
      and "PetCreateRequest.Age d = None \<or> Owner d = None"
      and "validator h = Struct_PetCreateRequest"
  shows "map status_code (responses (PetHandler_Create h marshal body)) = [400] \<and>
         storage_calls (PetHandler_Create h marshal body) = [] \<and>
         (PetCreateRequest.Age d = None \<longrightarrow>
            map_of (errors_map (hd (responses (PetHandler_Create h marshal body)))) ''Age'' =
              Some ''This value is required.'') \<and>
         (Owner d = None \<longrightarrow>
            map_of (errors_map (hd (responses (PetHandler_Create h marshal body)))) ''Owner'' =
              Some ''This value is required.'')"
  using assms
  by (auto simp add: PetHandler_Create_def Struct_PetCreateRequest_def storage_calls_def
        error_message_def split: option.splits)

theorem Create_missing_required_field_witness:
  "Decode_PetCreateRequest bob_body =
     Inr \<lparr>PetCreateRequest.Name = Some ''Bob'', PetCreateRequest.Age = Some (- 2), Owner = None\<rparr> \<and>
   map status_code
     (responses (PetHandler_Create
        (NewPetHandler (fixed_client (Some kuro, None) (Some kuro, None)) [] Struct_PetCreateRequest)
        Serializer bob_body)) = [400] \<and>
   storage_calls (PetHandler_Create
        (NewPetHandler (fixed_client (Some kuro, None) (Some kuro, None)) [] Struct_PetCreateRequest)
        Serializer bob_body) = [] \<and>
   map_of (errors_map (hd (responses (PetHandler_Create
        (NewPetHandler (fixed_client (Some kuro, None) (Some kuro, None)) [] Struct_PetCreateRequest)
        Serializer bob_body)))) ''Owner'' = Some ''This value is required.'' \<and>
   map_of (errors_map (hd (responses (PetHandler_Create
        (NewPetHandler (fixed_client (Some kuro, None) (Some kuro, None)) [] Struct_PetCreateRequest)
        Serializer (Some (JObject [])))))) ''Age'' = Some ''This value is required.''"
  using Create_missing_required_field
    [OF Decode_bob_body, of
      "NewPetHandler (fixed_client (Some kuro, None) (Some kuro, None)) [] Struct_PetCreateRequest"
      Serializer]
    Create_missing_required_field
    [OF Decode_empty_object(2), of
      "NewPetHandler (fixed_client (Some kuro, None) (Some kuro, None)) [] Struct_PetCreateRequest"
      Serializer]
  by (simp add: Decode_bob_body NewPetHandler_def)

text \<open>
  C7. For every Create request whose validation ends in the validator's
  \<^verbatim>\<open>InvalidValidationError\<close>, the handler logs at error severity and responds 500 with a
  nil payload: nothing of the fault reaches the caller, and no storage call is made.
\<close>

theorem Create_validator_fault_is_500:
  "(Decode_GroupCreateRequest body = Inr dg \<and> validator hg dg = Some InvalidValidationError \<longrightarrow>
      GroupHandler_Create hg marshal body =
        [Log ErrorLevel ''error validating request data''
           (log hg @ [zap_String ''method'' ''Create'', zap_Error InvalidValidationError]),
         Render (InternalServerError Nil_payload)]) \<and>
   (Decode_PetCreateRequest body = Inr dp \<and> validator hp dp = Some InvalidValidationError \<longrightarrow>
      PetHandler_Create hp marshal body =
        [Log ErrorLevel ''error validating request data''
           (log hp @ [zap_String ''method'' ''Create'', zap_Error InvalidValidationError]),
         Render (InternalServerError Nil_payload)]) \<and>
   (Decode_UserCreateRequest body = Inr du \<and> validator hu du = Some InvalidValidationError \<longrightarrow>
      UserHandler_Create hu marshal body =
        [Log ErrorLevel ''error validating request data''
           (log hu @ [zap_String ''method'' ''Create'', zap_Error InvalidValidationError]),
         Render (InternalServerError Nil_payload)])"
  by (simp add: GroupHandler_Create_def PetHandler_Create_def UserHandler_Create_def)

theorem Create_validator_fault_is_500_witness:
  "GroupHandler_Create
     (NewGroupHandler (fixed_client (None, None) (None, None)) []
        (\<lambda>d. Some InvalidValidationError))
     Serializer (Some (JObject [])) =
   [Log ErrorLevel ''error validating request data''
      [zap_String ''handler'' ''GroupHandler'', zap_String ''method'' ''Create'',
       zap_Error InvalidValidationError],
    Render (InternalServerError Nil_payload)] \<and>
   PetHandler_Create
     (NewPetHandler (fixed_client (None, None) (None, None)) []
        (\<lambda>d. Some InvalidValidationError))
     Serializer kuro_body =
   [Log ErrorLevel ''error validating request data''
      [zap_String ''handler'' ''PetHandler'', zap_String ''method'' ''Create'',
       zap_Error InvalidValidationError],
    Render (InternalServerError Nil_payload)] \<and>
   UserHandler_Create
     (NewUserHandler (fixed_client (None, None) (None, None)) []
        (\<lambda>d. Some InvalidValidationError))
     Serializer elk_body =
   [Log ErrorLevel ''error validating request data''
      [zap_String ''handler'' ''UserHandler'', zap_String ''method'' ''Create'',
       zap_Error InvalidValidationError],
    Render (InternalServerError Nil_payload)]"
  using
    Create_validator_fault_is_500
      [where body = "Some (JObject [])" and marshal = Serializer and dg = GroupCreateRequest
         and hg = "NewGroupHandler (fixed_client (None, None) (None, None)) []
                    (\<lambda>d. Some InvalidValidationError)"]
    Create_validator_fault_is_500
      [where body = kuro_body and marshal = Serializer
         and dp = "\<lparr>PetCreateRequest.Name = Some ''Kuro'', PetCreateRequest.Age = Some 3,
                    Owner = Some 1\<rparr>"
         and hp = "NewPetHandler (fixed_client (None, None) (None, None)) []
                    (\<lambda>d. Some InvalidValidationError)"]
    Create_validator_fault_is_500
      [where body = elk_body and marshal = Serializer
         and du = "\<lparr>UserCreateRequest.Name = Some ''Elk'', UserCreateRequest.Age = Some 30,
                    Pets = None\<rparr>"
         and hu = "NewUserHandler (fixed_client (None, None) (None, None)) []
                    (\<lambda>d. Some InvalidValidationError)"]
  by (simp add: Decode_kuro_body Decode_elk_body Decode_empty_object
        NewGroupHandler_def NewPetHandler_def NewUserHandler_def)

section \<open>Create: the builder and the storage write\<close>

lemma PetCreate_setters_present:
  "(SetName v \<in> set (PetCreate_setters d) \<longleftrightarrow> PetCreateRequest.Name d = Some v) \<and>
   (SetAge n \<in> set (PetCreate_setters d) \<longleftrightarrow> PetCreateRequest.Age d = Some n) \<and>
   (SetOwnerID n \<in> set (PetCreate_setters d) \<longleftrightarrow> Owner d = Some n) \<and>
   AddPetIDs ns \<notin> set (PetCreate_setters d) \<and> distinct (PetCreate_setters d)"
  by (auto simp add: PetCreate_setters_def split: option.splits)

lemma UserCreate_setters_present:
  "(SetName v \<in> set (UserCreate_setters d) \<longleftrightarrow> UserCreateRequest.Name d = Some v) \<and>
   (SetAge n \<in> set (UserCreate_setters d) \<longleftrightarrow> UserCreateRequest.Age d = Some n) \<and>
   (AddPetIDs ns \<in> set (UserCreate_setters d) \<longleftrightarrow> Pets d = Some ns) \<and>
   SetOwnerID n \<notin> set (UserCreate_setters d) \<and> distinct (UserCreate_setters d)"
  by (auto simp add: UserCreate_setters_def split: option.splits)

lemma GroupHandler_Create_saves:
  assumes "Decode_GroupCreateRequest body = Inr d" and "validator h d = None"
  shows "hd (GroupHandler_Create h marshal body) = Call_Save Group [] \<and>
         save_calls (GroupHandler_Create h marshal body) = [(Group, [])]"
  using assms
  by (simp add: GroupHandler_Create_def Let_def
      split: sum.split prod.split option.split go_error.split)

lemma PetHandler_Create_saves:
  assumes "Decode_PetCreateRequest body = Inr d" and "validator h d = None"
  shows "hd (PetHandler_Create h marshal body) = Call_Save Pet (PetCreate_setters d) \<and>
         save_calls (PetHandler_Create h marshal body) = [(Pet, PetCreate_setters d)]"
  using assms
  by (simp add: PetHandler_Create_def Let_def
      split: sum.split prod.split option.split go_error.split)

lemma UserHandler_Create_saves:
  assumes "Decode_UserCreateRequest body = Inr d" and "validator h d = None"
  shows "hd (UserHandler_Create h marshal body) = Call_Save User (UserCreate_setters d) \<and>
         save_calls (UserHandler_Create h marshal body) = [(User, UserCreate_setters d)]"
  using assms
  by (simp add: UserHandler_Create_def Let_def
      split: sum.split prod.split option.split go_error.split)

text \<open>
  C4. For every decoded Create payload that passes validation, the one \<^verbatim>\<open>Save\<close> of the
  request is the first storage call and its builder received a setter for exactly the
  fields that were decoded as non-nil, each once and with the decoded value; a field that
  is nil is never set. The Group builder receives no setter at all.
\<close>

theorem Create_sets_exactly_present_fields:
  "(Decode_PetCreateRequest body = Inr dp \<and> validator hp dp = None \<longrightarrow>
      hd (PetHandler_Create hp marshal body) = Call_Save Pet (PetCreate_setters dp) \<and>
      save_calls (PetHandler_Create hp marshal body) = [(Pet, PetCreate_setters dp)] \<and>
      (\<forall>v. SetName v \<in> set (PetCreate_setters dp) \<longleftrightarrow> PetCreateRequest.Name dp = Some v) \<and>
      (\<forall>n. SetAge n \<in> set (PetCreate_setters dp) \<longleftrightarrow> PetCreateRequest.Age dp = Some n) \<and>
      (\<forall>n. SetOwnerID n \<in> set (PetCreate_setters dp) \<longleftrightarrow> Owner dp = Some n) \<and>
      (\<forall>ns. AddPetIDs ns \<notin> set (PetCreate_setters dp)) \<and>
      distinct (PetCreate_setters dp)) \<and>
   (Decode_UserCreateRequest body = Inr du \<and> validator hu du = None \<longrightarrow>
      hd (UserHandler_Create hu marshal body) = Call_Save User (UserCreate_setters du) \<and>
      save_calls (UserHandler_Create hu marshal body) = [(User, UserCreate_setters du)] \<and>
      (\<forall>v. SetName v \<in> set (UserCreate_setters du) \<longleftrightarrow> UserCreateRequest.Name du = Some v) \<and>
      (\<forall>n. SetAge n \<in> set (UserCreate_setters du) \<longleftrightarrow> UserCreateRequest.Age du = Some n) \<and>
      (\<forall>ns. AddPetIDs ns \<in> set (UserCreate_setters du) \<longleftrightarrow> Pets du = Some ns) \<and>
      (\<forall>n. SetOwnerID n \<notin> set (UserCreate_setters du)) \<and>
      distinct (UserCreate_setters du)) \<and>
   (Decode_GroupCreateRequest body = Inr dg \<and> validator hg dg = None \<longrightarrow>
      hd (GroupHandler_Create hg marshal body) = Call_Save Group [] \<and>
      save_calls (GroupHandler_Create hg marshal body) = [(Group, [])])"
  using PetHandler_Create_saves [of body dp hp marshal] PetCreate_setters_present [of _ dp]
    UserHandler_Create_saves [of body du hu marshal] UserCreate_setters_present [of _ du]
    GroupHandler_Create_saves [of body dg hg marshal]
  by blast

theorem Create_sets_exactly_present_fields_witness:
  "save_calls
     (PetHandler_Create
        (NewPetHandler (fixed_client (Some kuro, None) (Some kuro, None)) [] Struct_PetCreateRequest)
        Serializer (Some (JObject [(''age'', JInt 3), (''owner'', JInt 1)]))) =
     [(Pet, [SetAge 3, SetOwnerID 1])] \<and>
   save_calls
     (UserHandler_Create
        (NewUserHandler (fixed_client (Some elk, None) (Some elk, None)) [] Struct_UserCreateRequest)
        Serializer elk_body) =
     [(User, [SetName ''Elk'', SetAge 30])] \<and>
   save_calls
     (GroupHandler_Create
        (NewGroupHandler (fixed_client (Some first_group, None) (Some first_group, None)) []
           Struct_GroupCreateRequest)
        Serializer (Some (JObject [(''name'', JString ''admins'')]))) =
     [(Group, [])]"
proof -
  let ?body = "Some (JObject [(''age'', JInt 3), (''owner'', JInt 1)])"
  let ?d = "\<lparr>PetCreateRequest.Name = None, PetCreateRequest.Age = Some 3, Owner = Some 1\<rparr>"
  let ?hp = "NewPetHandler (fixed_client (Some kuro, None) (Some kuro, None)) []
               Struct_PetCreateRequest"
  let ?du = "\<lparr>UserCreateRequest.Name = Some ''Elk'', UserCreateRequest.Age = Some 30,
              Pets = None\<rparr>"
  let ?hu = "NewUserHandler (fixed_client (Some elk, None) (Some elk, None)) []
               Struct_UserCreateRequest"
  let ?gbody = "Some (JObject [(''name'', JString ''admins'')])"
  let ?hg = "NewGroupHandler (fixed_client (Some first_group, None) (Some first_group, None)) []
               Struct_GroupCreateRequest"
  have dec: "Decode_PetCreateRequest ?body = Inr ?d"
    by (simp add: decode_defs)
  have val: "validator ?hp ?d = None"
    by (simp add: NewPetHandler_def Struct_PetCreateRequest_def)
  have setters: "PetCreate_setters ?d = [SetAge 3, SetOwnerID 1]"
    by (simp add: PetCreate_setters_def)
  have valu: "validator ?hu ?du = None"
    by (simp add: NewUserHandler_def Struct_UserCreateRequest_def)
  have decg: "Decode_GroupCreateRequest ?gbody = Inr GroupCreateRequest"
    by (simp add: decode_defs)
  have valg: "validator ?hg GroupCreateRequest = None"
    by (simp add: NewGroupHandler_def Struct_GroupCreateRequest_def)
  from Create_sets_exactly_present_fields
         [where body = "?body" and dp = "?d" and hp = "?hp" and marshal = Serializer]
       dec val
  have "save_calls (PetHandler_Create ?hp Serializer ?body) = [(Pet, PetCreate_setters ?d)]"
    by blast
  moreover
  from Create_sets_exactly_present_fields
         [where body = elk_body and du = "?du" and hu = "?hu" and marshal = Serializer]
       Decode_elk_body valu
  have "save_calls (UserHandler_Create ?hu Serializer elk_body) = [(User, UserCreate_setters ?du)]"
    by blast
  moreover
  from Create_sets_exactly_present_fields
         [where body = "?gbody" and dg = GroupCreateRequest and hg = "?hg" and marshal = Serializer]
       decg valg
  have "save_calls (GroupHandler_Create ?hg Serializer ?gbody) = [(Group, [])]"
    by blast
  ultimately show ?thesis
    by (simp add: setters setters_elk)
qed

text \<open>
  A reload that returns an error and, as ent does beside every error, a nil pointer ends
  in a panic after the two storage calls, whatever the error is.
\<close>

lemma Create_reload_failure_with_nil_entity:
  assumes "Decode_PetCreateRequest body = Inr d" and "validator h d = None"
      and "Save (client h) Pet (PetCreate_setters d) = (Some e0, None)"
      and "Only (client h) Pet (Query (ID e0) []) = (None, Some err)"
  shows "PetHandler_Create h marshal body =
           [Call_Save Pet (PetCreate_setters d), Call_Only Pet (Query (ID e0) []), Panic]"
  using assms by (simp add: PetHandler_Create_def Let_def split: go_error.split)

text \<open>
  C5. The claim: after a successful write the handler re-queries the entity by the
  identifier the write returned and serializes what the re-query gives, and a reload that
  reports NotFound is answered 404. The first half holds (first equation: the query carries
  the identifier of the saved entity, and the body is the serialization of the reloaded
  one). The second half fails: \<^verbatim>\<open>e, err = q.Only(...)\<close> overwrites \<^verbatim>\<open>e\<close>, which is nil
  when \<^verbatim>\<open>Only\<close> reports NotFound, and the NotFound branch reads \<^verbatim>\<open>e.ID\<close> for its log
  entry before it would render: the handler panics after the two storage calls and writes
  neither a log entry nor a response.
\<close>

theorem Create_reload_NotFound_panics:
  "PetHandler_Create
     (NewPetHandler (fixed_client (Some kuro, None) (Some kuro, None)) [] Struct_PetCreateRequest)
     Serializer kuro_body =
   [Call_Save Pet [SetName ''Kuro'', SetAge 3, SetOwnerID 1], Call_Only Pet (Query (ID kuro) []),
    Log InfoLevel ''pet rendered''
      [zap_String ''handler'' ''PetHandler'', zap_String ''method'' ''Create'', zap_Int ''id'' 1],
    Render (OK (serialize [''pet''] kuro))] \<and>
   PetHandler_Create
     (NewPetHandler (fixed_client (Some kuro, None) (None, Some (NotFoundError ''pet''))) []
        Struct_PetCreateRequest)
     Serializer kuro_body =
   [Call_Save Pet [SetName ''Kuro'', SetAge 3, SetOwnerID 1], Call_Only Pet (Query (ID kuro) []),
    Panic] \<and>
   responses (PetHandler_Create
     (NewPetHandler (fixed_client (Some kuro, None) (None, Some (NotFoundError ''pet''))) []
        Struct_PetCreateRequest)
     Serializer kuro_body) = []"
  by (simp add: PetHandler_Create_def Decode_kuro_body Struct_kuro setters_kuro fixed_client_def
        NewPetHandler_def Serializer_def kuro_def)

lemma GroupHandler_Create_Save_fails:
  "(k, b) \<in> set (save_calls (GroupHandler_Create h marshal body)) \<longrightarrow>
   snd (Save (client h) k b) = Some err \<longrightarrow>
   GroupHandler_Create h marshal body =
     [Call_Save k b,
      Log ErrorLevel ''error saving group'' (log h @ [zap_String ''method'' ''Create'', zap_Error err]),
      Render (InternalServerError Nil_payload)]"
  by (simp add: GroupHandler_Create_def Let_def
      split: sum.split prod.split option.split go_error.split)

lemma PetHandler_Create_Save_fails:
  "(k, b) \<in> set (save_calls (PetHandler_Create h marshal body)) \<longrightarrow>
   snd (Save (client h) k b) = Some err \<longrightarrow>
   PetHandler_Create h marshal body =
     [Call_Save k b,
      Log ErrorLevel ''error saving pet'' (log h @ [zap_String ''method'' ''Create'', zap_Error err]),
      Render (InternalServerError Nil_payload)]"
  by (simp add: PetHandler_Create_def Let_def
      split: sum.split prod.split option.split go_error.split)

lemma UserHandler_Create_Save_fails:
  "(k, b) \<in> set (save_calls (UserHandler_Create h marshal body)) \<longrightarrow>
   snd (Save (client h) k b) = Some err \<longrightarrow>
   UserHandler_Create h marshal body =
     [Call_Save k b,
      Log ErrorLevel ''error saving user'' (log h @ [zap_String ''method'' ''Create'', zap_Error err]),
      Render (InternalServerError Nil_payload)]"
  by (simp add: UserHandler_Create_def Let_def
      split: sum.split prod.split option.split go_error.split)

text \<open>
  C6, the claim as stated fails: a write that fails with a referential-integrity
  violation (an owner that does not exist) is answered 500, like every other failed write.
\<close>

theorem Create_constraint_error_is_500:
  "IsConstraintError (ConstraintError ''FOREIGN KEY constraint failed'') \<and>
   PetHandler_Create
     (NewPetHandler
        (fixed_client (None, Some (ConstraintError ''FOREIGN KEY constraint failed'')) (None, None))
        [] Struct_PetCreateRequest)
     Serializer kuro_body =
   [Call_Save Pet [SetName ''Kuro'', SetAge 3, SetOwnerID 1],
    Log ErrorLevel ''error saving pet''
      [zap_String ''handler'' ''PetHandler'', zap_String ''method'' ''Create'',
       zap_Error (ConstraintError ''FOREIGN KEY constraint failed'')],
    Render (InternalServerError Nil_payload)] \<and>
   status_code (InternalServerError Nil_payload) \<noteq> 400"
  by (simp add: PetHandler_Create_def Decode_kuro_body Struct_kuro setters_kuro fixed_client_def
        NewPetHandler_def)

text \<open>
  C6, amended. For every Create whose storage write fails, whatever the error of the
  write (a referential-integrity violation included), the handler logs the error at error
  severity and responds 500 with a nil payload; it makes no further storage call.
\<close>

theorem Create_failed_write_is_500:
  "((k, b) \<in> set (save_calls (GroupHandler_Create hg marshal body)) \<and>
    snd (Save (client hg) k b) = Some err \<longrightarrow>
      GroupHandler_Create hg marshal body =
        [Call_Save k b,
         Log ErrorLevel ''error saving group''
           (log hg @ [zap_String ''method'' ''Create'', zap_Error err]),
         Render (InternalServerError Nil_payload)]) \<and>
   ((k, b) \<in> set (save_calls (PetHandler_Create hp marshal body)) \<and>
    snd (Save (client hp) k b) = Some err \<longrightarrow>
      PetHandler_Create hp marshal body =
        [Call_Save k b,
         Log ErrorLevel ''error saving pet''
           (log hp @ [zap_String ''method'' ''Create'', zap_Error err]),
         Render (InternalServerError Nil_payload)]) \<and>
   ((k, b) \<in> set (save_calls (UserHandler_Create hu marshal body)) \<and>
    snd (Save (client hu) k b) = Some err \<longrightarrow>
      UserHandler_Create hu marshal body =
        [Call_Save k b,
         Log ErrorLevel ''error saving user''
           (log hu @ [zap_String ''method'' ''Create'', zap_Error err]),
         Render (InternalServerError Nil_payload)])"
  using GroupHandler_Create_Save_fails [of k b hg marshal body err]
    PetHandler_Create_Save_fails [of k b hp marshal body err]
    UserHandler_Create_Save_fails [of k b hu marshal body err]
  by blast

theorem Create_failed_write_is_500_witness:
  "map status_code (responses (GroupHandler_Create
       (NewGroupHandler
          (fixed_client (None, Some (OtherError ''database is locked'')) (None, None))
          [] Struct_GroupCreateRequest)
       Serializer (Some (JObject [])))) = [500] \<and>
   map status_code (responses (PetHandler_Create
       (NewPetHandler
          (fixed_client (None, Some (ConstraintError ''FOREIGN KEY constraint failed''))
             (None, None))
          [] Struct_PetCreateRequest)
       Serializer kuro_body)) = [500] \<and>
   map status_code (responses (UserHandler_Create
       (NewUserHandler
          (fixed_client (None, Some (OtherError ''database is locked'')) (None, None))
          [] Struct_UserCreateRequest)
       Serializer elk_body)) = [500]"
proof -
  let ?locked = "OtherError ''database is locked''"
  let ?foreign = "ConstraintError ''FOREIGN KEY constraint failed''"
  let ?hg = "NewGroupHandler (fixed_client (None, Some ?locked) (None, None)) []
               Struct_GroupCreateRequest"
  let ?hp = "NewPetHandler (fixed_client (None, Some ?foreign) (None, None)) []
               Struct_PetCreateRequest"
  let ?hu = "NewUserHandler (fixed_client (None, Some ?locked) (None, None)) []
               Struct_UserCreateRequest"
  let ?dp = "\<lparr>PetCreateRequest.Name = Some ''Kuro'', PetCreateRequest.Age = Some 3,
              Owner = Some 1\<rparr>"
  let ?du = "\<lparr>UserCreateRequest.Name = Some ''Elk'', UserCreateRequest.Age = Some 30,
              Pets = None\<rparr>"
  have valg: "validator ?hg GroupCreateRequest = None"
    by (simp add: NewGroupHandler_def Struct_GroupCreateRequest_def)
  have valp: "validator ?hp ?dp = None"
    by (simp add: NewPetHandler_def Struct_kuro)
  have valu: "validator ?hu ?du = None"
    by (simp add: NewUserHandler_def Struct_UserCreateRequest_def)
  have calledg: "(Group, []) \<in> set (save_calls (GroupHandler_Create ?hg Serializer (Some (JObject []))))"
    using GroupHandler_Create_saves [OF Decode_empty_object(1) valg, of Serializer]
    by simp
  have calledp: "(Pet, PetCreate_setters ?dp) \<in>
      set (save_calls (PetHandler_Create ?hp Serializer kuro_body))"
    using PetHandler_Create_saves [OF Decode_kuro_body valp, of Serializer]
    by simp
  have calledu: "(User, UserCreate_setters ?du) \<in>
      set (save_calls (UserHandler_Create ?hu Serializer elk_body))"
    using UserHandler_Create_saves [OF Decode_elk_body valu, of Serializer]
    by simp
  have failed:
    "snd (Save (client ?hg) Group []) = Some ?locked"
    "snd (Save (client ?hp) Pet (PetCreate_setters ?dp)) = Some ?foreign"
    "snd (Save (client ?hu) User (UserCreate_setters ?du)) = Some ?locked"
    by (simp_all add: NewGroupHandler_def NewPetHandler_def NewUserHandler_def fixed_client_def)
  from Create_failed_write_is_500
         [where k = Group and b = "[]" and hg = "?hg" and marshal = Serializer
            and body = "Some (JObject [])" and err = "?locked"]
       calledg failed(1)
  have "responses (GroupHandler_Create ?hg Serializer (Some (JObject []))) =
          [InternalServerError Nil_payload]"
    by simp
  moreover
  from Create_failed_write_is_500
         [where k = Pet and b = "PetCreate_setters ?dp" and hp = "?hp" and marshal = Serializer
            and body = kuro_body and err = "?foreign"]
       calledp failed(2)
  have "responses (PetHandler_Create ?hp Serializer kuro_body) =
          [InternalServerError Nil_payload]"
    by simp
  moreover
  from Create_failed_write_is_500
         [where k = User and b = "UserCreate_setters ?du" and hu = "?hu" and marshal = Serializer
            and body = elk_body and err = "?locked"]
       calledu failed(3)
  have "responses (UserHandler_Create ?hu Serializer elk_body) =
          [InternalServerError Nil_payload]"
    by simp
  ultimately show ?thesis
    by simp
qed

section \<open>Logging\<close>

lemma GroupHandler_Read_logged: "logged_once (Read_fields s) (GroupHandler_Read h marshal s)"
  by (simp add: GroupHandler_Read_def logged_once_def Read_fields_def Let_def
      split: sum.split prod.split option.split)

lemma PetHandler_Read_logged: "logged_once (Read_fields s) (PetHandler_Read h marshal s)"
  by (simp add: PetHandler_Read_def logged_once_def Read_fields_def Let_def
      split: sum.split prod.split option.split)

lemma UserHandler_Read_logged: "logged_once (Read_fields s) (UserHandler_Read h marshal s)"
  by (simp add: UserHandler_Read_def logged_once_def Read_fields_def Let_def
      split: sum.split prod.split option.split)

lemma GroupHandler_Create_logged:
  "logged_once (Create_fields (client h) (GroupHandler_Create h marshal body))
     (GroupHandler_Create h marshal body)"
  by (simp add: GroupHandler_Create_def logged_once_def Create_fields_def Let_def
      split: sum.split prod.split option.split go_error.split)

lemma PetHandler_Create_logged:
  "logged_once (Create_fields (client h) (PetHandler_Create h marshal body))
     (PetHandler_Create h marshal body)"
  by (simp add: PetHandler_Create_def logged_once_def Create_fields_def Let_def
      split: sum.split prod.split option.split go_error.split)

lemma UserHandler_Create_logged:
  "logged_once (Create_fields (client h) (UserHandler_Create h marshal body))
     (UserHandler_Create h marshal body)"
  by (simp add: UserHandler_Create_def logged_once_def Create_fields_def Let_def
      split: sum.split prod.split option.split go_error.split)

lemma logged_onceD:
  assumes "logged_once required t" and "r \<in> set (responses t)"
  shows "\<exists>m fs. log_entries t = [(logged_at r, m, fs)] \<and> responses t = [r] \<and>
           last t = Render r \<and> set required \<subseteq> set fs"
  using assms
  by (auto simp add: logged_once_def list_all_iff split: list.splits prod.splits)

text \<open>
  What \<open>Create_fields\<close> asks of a Create that reloaded its entity: the entry before the
  response carries the identifier of the reloaded entity.
\<close>

lemma Create_fields_reloaded:
  assumes "Decode_PetCreateRequest body = Inr d" and "validator h d = None"
      and "Save (client h) Pet (PetCreate_setters d) = (Some e0, None)"
      and "Only (client h) Pet (Query (ID e0) []) = (Some e, x)"
  shows "Create_fields (client h) (PetHandler_Create h marshal body) =
           [zap_String ''method'' ''Create'', zap_Int ''id'' (ID e)]"
  using assms
  by (simp add: PetHandler_Create_def Create_fields_def Let_def
      split: sum.split option.split go_error.split)

text \<open>
  C8, the claim as stated fails: a decode failure and an identifier that does not parse
  are answered 400 and logged at error severity, not at info severity.
\<close>

theorem decode_failure_logged_at_error:
  "PetHandler_Create
     (NewPetHandler (fixed_client (None, None) (None, None)) [] Struct_PetCreateRequest)
     Serializer None =
   [Log ErrorLevel ''error decoding json''
      [zap_String ''handler'' ''PetHandler'', zap_String ''method'' ''Create'',
       zap_Error SyntaxError],
    Render (BadRequest (String_payload ''invalid json string''))] \<and>
   PetHandler_Read
     (NewPetHandler (fixed_client (None, None) (None, None)) [] Struct_PetCreateRequest)
     Serializer ''abc'' =
   [Log ErrorLevel ''error getting id from url parameter''
      [zap_String ''handler'' ''PetHandler'', zap_String ''method'' ''Read'',
       zap_String ''id'' ''abc'', zap_Error (NumError ''abc'')],
    Render (BadRequest (String_payload ''id must be an integer greater zero''))] \<and>
   status_code (BadRequest (String_payload ''invalid json string'')) = 400 \<and>
   ErrorLevel \<noteq> InfoLevel"
  by (simp add: PetHandler_Create_def PetHandler_Read_def Decode_PetCreateRequest_def Atoi_word
        NewPetHandler_def)

text \<open>
  C8, amended. Every response of a Create or Read handler ends the trace and is preceded
  by exactly one log entry. The entry carries the operation name and the identifier when
  it is known: in Read the parsed identifier, or the raw parameter when it does not parse;
  in Create, once the entity has been reloaded, the identifier of the reloaded entity
  (so for the rendered entity, a serialization error and an answered reload error). The
  entry is at info severity before a rendered entity, before a 404 and before the 400 of
  a validation failure; it is at error severity before every other 400 (decode failure,
  identifier that does not parse, NotSingular) and before every 500. Nothing is said about
  a request that the handler leaves unanswered.
\<close>

theorem every_response_logged_once:
  assumes "t = GroupHandler_Create hg marshal body \<and> required = Create_fields (client hg) t \<or>
           t = PetHandler_Create hp marshal body \<and> required = Create_fields (client hp) t \<or>
           t = UserHandler_Create hu marshal body \<and> required = Create_fields (client hu) t \<or>
           t \<in> {GroupHandler_Read hg marshal s, PetHandler_Read hp marshal s,
                 UserHandler_Read hu marshal s} \<and>
             required = Read_fields s"
      and "r \<in> set (responses t)"
  shows "\<exists>m fs. log_entries t = [(logged_at r, m, fs)] \<and> responses t = [r] \<and>
           last t = Render r \<and> set required \<subseteq> set fs"
proof -
  have "logged_once required t"
    using assms(1) GroupHandler_Create_logged PetHandler_Create_logged UserHandler_Create_logged
      GroupHandler_Read_logged PetHandler_Read_logged UserHandler_Read_logged
    by auto
  then show ?thesis
    using assms(2) by (rule logged_onceD)
qed

theorem every_response_logged_once_witness:
  "(\<exists>m fs. log_entries (PetHandler_Read
       (NewPetHandler (fixed_client (None, None) (None, Some (NotFoundError ''pet''))) []
          Struct_PetCreateRequest)
       Serializer ''1'') = [(InfoLevel, m, fs)] \<and>
     zap_String ''method'' ''Read'' \<in> set fs \<and> zap_Int ''id'' 1 \<in> set fs) \<and>
   responses (PetHandler_Read
       (NewPetHandler (fixed_client (None, None) (None, Some (NotFoundError ''pet''))) []
          Struct_PetCreateRequest)
       Serializer ''1'') = [NotFound (String_payload ''pet not found'')] \<and>
   (\<exists>m fs. log_entries (PetHandler_Create
       (NewPetHandler (fixed_client (None, None) (None, None)) [] Struct_PetCreateRequest)
       Serializer bob_body) = [(InfoLevel, m, fs)] \<and>
     zap_String ''method'' ''Create'' \<in> set fs) \<and>
   map status_code (responses (PetHandler_Create
       (NewPetHandler (fixed_client (None, None) (None, None)) [] Struct_PetCreateRequest)
       Serializer bob_body)) = [400] \<and>
   (\<exists>m fs. log_entries (PetHandler_Create
       (NewPetHandler (fixed_client (Some kuro, None) (Some kuro, None)) []
          Struct_PetCreateRequest)
       Serializer kuro_body) = [(InfoLevel, m, fs)] \<and>
     zap_String ''method'' ''Create'' \<in> set fs \<and> zap_Int ''id'' (ID kuro) \<in> set fs) \<and>
   responses (PetHandler_Create
       (NewPetHandler (fixed_client (Some kuro, None) (Some kuro, None)) []
          Struct_PetCreateRequest)
       Serializer kuro_body) = [OK (serialize [''pet''] kuro)]"
proof -
  let ?h = "NewPetHandler (fixed_client (None, None) (None, Some (NotFoundError ''pet''))) []
              Struct_PetCreateRequest"
  let ?t = "PetHandler_Read ?h Serializer ''1''"
  let ?r = "NotFound (String_payload ''pet not found'')"
  let ?h' = "NewPetHandler (fixed_client (None, None) (None, None)) [] Struct_PetCreateRequest"
  let ?t' = "PetHandler_Create ?h' Serializer bob_body"
  let ?r' = "BadRequest (Error_payload (ValidationErrors
               [FieldError ''Age'' ''gt'' ''0'', FieldError ''Owner'' ''required'' []]))"
  let ?k = "NewPetHandler (fixed_client (Some kuro, None) (Some kuro, None)) []
              Struct_PetCreateRequest"
  let ?tk = "PetHandler_Create ?k Serializer kuro_body"
  let ?rk = "OK (serialize [''pet''] kuro)"
  let ?d = "\<lparr>PetCreateRequest.Name = Some ''Kuro'', PetCreateRequest.Age = Some 3, Owner = Some 1\<rparr>"
  have answered: "?r \<in> set (responses ?t)"
    by (simp add: PetHandler_Read_def Atoi_one NewPetHandler_def fixed_client_def)
  have answered': "?r' \<in> set (responses ?t')"
    by (simp add: PetHandler_Create_def Decode_bob_body NewPetHandler_def
          Struct_PetCreateRequest_def)
  have collab: "validator ?k ?d = None"
    "Save (client ?k) Pet (PetCreate_setters ?d) = (Some kuro, None)"
    "Only (client ?k) Pet (Query (ID kuro) []) = (Some kuro, None)"
    by (simp_all add: NewPetHandler_def fixed_client_def Struct_kuro)
  have answeredk: "?rk \<in> set (responses ?tk)"
    using Decode_kuro_body collab by (simp add: PetHandler_Create_def Serializer_def)
  have fieldsk: "Create_fields (client ?k) ?tk =
      [zap_String ''method'' ''Create'', zap_Int ''id'' (ID kuro)]"
    using Decode_kuro_body collab by (rule Create_fields_reloaded)
  have fields': "Create_fields (client ?h') ?t' = [zap_String ''method'' ''Create'']"
    by (simp add: PetHandler_Create_def Create_fields_def Decode_bob_body NewPetHandler_def
          Struct_PetCreateRequest_def)
  have "\<exists>m fs. log_entries ?t = [(logged_at ?r, m, fs)] \<and> responses ?t = [?r] \<and>
          last ?t = Render ?r \<and> set (Read_fields ''1'') \<subseteq> set fs"
    by (rule every_response_logged_once
          [where hg = "NewGroupHandler (client ?h) [] Struct_GroupCreateRequest"
             and hu = "NewUserHandler (client ?h) [] Struct_UserCreateRequest"
             and hp = "?h" and marshal = Serializer and body = None and s = "''1''"])
       (simp_all add: answered)
  moreover
  have "\<exists>m fs. log_entries ?t' = [(logged_at ?r', m, fs)] \<and> responses ?t' = [?r'] \<and>
          last ?t' = Render ?r' \<and> set (Create_fields (client ?h') ?t') \<subseteq> set fs"
    by (rule every_response_logged_once
          [where hg = "NewGroupHandler (client ?h') [] Struct_GroupCreateRequest"
             and hu = "NewUserHandler (client ?h') [] Struct_UserCreateRequest"
             and hp = "?h'" and marshal = Serializer and body = bob_body and s = "''1''"])
       (simp_all add: answered')
  moreover
  have "\<exists>m fs. log_entries ?tk = [(logged_at ?rk, m, fs)] \<and> responses ?tk = [?rk] \<and>
          last ?tk = Render ?rk \<and> set (Create_fields (client ?k) ?tk) \<subseteq> set fs"
    by (rule every_response_logged_once
          [where hg = "NewGroupHandler (client ?k) [] Struct_GroupCreateRequest"
             and hu = "NewUserHandler (client ?k) [] Struct_UserCreateRequest"
             and hp = "?k" and marshal = Serializer and body = kuro_body and s = "''1''"])
       (simp_all add: answeredk)
  ultimately show ?thesis
    unfolding fieldsk fields' by (auto simp add: Read_fields_def Atoi_one)
qed

section \<open>Serialization\<close>

text \<open>
  The three sample responses of the blog post: the pet created before the schemas have
  relations, the user created before its relation is tagged, and the user read with the
  group \<^verbatim>\<open>user\<close> active.
\<close>

lemma kuro_alone_sample:
  "serialize [''pet''] kuro_alone =
     Object [(''id'', Scalar (JInt 1)), (''name'', Scalar (JString ''Kuro'')),
             (''age'', Scalar (JInt 3))]"
  by (simp add: kuro_alone_def emitted_def)

lemma elk_created_sample:
  "serialize [''user''] elk_created =
     Object [(''id'', Scalar (JInt 1)), (''name'', Scalar (JString ''Elk'')),
             (''age'', Scalar (JInt 30)), (''edges'', Object [])]"
  by (simp add: elk_created_def emitted_def intersects_def)

lemma elk_sample:
  "serialize [''user''] elk =
     Object [(''id'', Scalar (JInt 1)), (''name'', Scalar (JString ''Elk'')),
             (''age'', Scalar (JInt 30)),
             (''edges'', Object
                [(''pets'', Sequence [Object [(''id'', Scalar (JInt 1)),
                                              (''name'', Scalar (JString ''Kuro'')),
                                              (''age'', Scalar (JInt 3)),
                                              (''edges'', Object [])]])])]"
  by (simp add: elk_def kuro_def emitted_def intersects_def)

lemma kuro_sample:
  "serialize [''pet''] kuro =
     Object [(''id'', Scalar (JInt 1)), (''name'', Scalar (JString ''Kuro'')),
             (''age'', Scalar (JInt 3)), (''edges'', Object [])]"
  by (simp add: kuro_def emitted_def intersects_def)
















section \<open>Group Create and the request body\<close>

text \<open>
  C10, the claim as stated fails: a body can be well-formed JSON and still not decode
  into the field-less struct. The array \<^verbatim>\<open>[]\<close> is answered 400 and nothing is saved; the
  object \<^verbatim>\<open>{}\<close> creates a group.
\<close>

theorem Group_Create_array_body_is_400:
  "GroupHandler_Create
     (NewGroupHandler (fixed_client (Some first_group, None) (Some first_group, None)) []
        Struct_GroupCreateRequest)
     Serializer (Some (JArray [])) =
   [Log ErrorLevel ''error decoding json''
      [zap_String ''handler'' ''GroupHandler'', zap_String ''method'' ''Create'',
       zap_Error UnmarshalTypeError],
    Render (BadRequest (String_payload ''invalid json string''))] \<and>
   GroupHandler_Create
     (NewGroupHandler (fixed_client (Some first_group, None) (Some first_group, None)) []
        Struct_GroupCreateRequest)
     Serializer (Some (JObject [])) =
   [Call_Save Group [], Call_Only Group (Query 1 []),
    Log InfoLevel ''group rendered''
      [zap_String ''handler'' ''GroupHandler'', zap_String ''method'' ''Create'', zap_Int ''id'' 1],
    Render (OK (Object [(''id'', Scalar (JInt 1))]))]"
  by (simp add: GroupHandler_Create_def Decode_GroupCreateRequest_def Struct_GroupCreateRequest_def
        NewGroupHandler_def fixed_client_def first_group_def Serializer_def)

text \<open>
  C10, amended. For every request body that is a JSON object (or \<^verbatim>\<open>null\<close>), Group Create
  behaves as it does for the empty object, whatever the members of the body: decoding
  succeeds and ignores them, the validator of main.go passes, and the builder that is
  saved has received no setter, so the created Group does not depend on anything the
  client sent. Every well-formed body of another JSON type (an array, a string, a number,
  a boolean) does not decode into the struct: it is logged at error severity and answered
  400, and nothing is saved.
\<close>

theorem Group_Create_ignores_object_members:
  "GroupHandler_Create h marshal (Some (JObject kvs)) =
     GroupHandler_Create h marshal (Some (JObject [])) \<and>
   GroupHandler_Create h marshal (Some JNull) = GroupHandler_Create h marshal (Some (JObject [])) \<and>
   Decode_GroupCreateRequest (Some (JObject kvs)) = Inr GroupCreateRequest \<and>
   Struct_GroupCreateRequest GroupCreateRequest = None \<and>
   hd (GroupHandler_Create (h\<lparr>validator := Struct_GroupCreateRequest\<rparr>) marshal
         (Some (JObject kvs))) = Call_Save Group [] \<and>
   save_calls (GroupHandler_Create (h\<lparr>validator := Struct_GroupCreateRequest\<rparr>) marshal
         (Some (JObject kvs))) = [(Group, [])] \<and>
   GroupHandler_Create h marshal (Some (JArray vs)) =
     [Log ErrorLevel ''error decoding json''
        (log h @ [zap_String ''method'' ''Create'', zap_Error UnmarshalTypeError]),
      Render (BadRequest (String_payload ''invalid json string''))] \<and>
   GroupHandler_Create h marshal (Some (JString x)) =
     [Log ErrorLevel ''error decoding json''
        (log h @ [zap_String ''method'' ''Create'', zap_Error UnmarshalTypeError]),
      Render (BadRequest (String_payload ''invalid json string''))] \<and>
   GroupHandler_Create h marshal (Some (JInt n)) =
     [Log ErrorLevel ''error decoding json''
        (log h @ [zap_String ''method'' ''Create'', zap_Error UnmarshalTypeError]),
      Render (BadRequest (String_payload ''invalid json string''))] \<and>
   GroupHandler_Create h marshal (Some (JFrac y)) =
     [Log ErrorLevel ''error decoding json''
        (log h @ [zap_String ''method'' ''Create'', zap_Error UnmarshalTypeError]),
      Render (BadRequest (String_payload ''invalid json string''))] \<and>
   GroupHandler_Create h marshal (Some (JBool b)) =
     [Log ErrorLevel ''error decoding json''
        (log h @ [zap_String ''method'' ''Create'', zap_Error UnmarshalTypeError]),
      Render (BadRequest (String_payload ''invalid json string''))]"
proof -
  have dec: "Decode_GroupCreateRequest (Some (JObject kvs)) = Inr GroupCreateRequest"
    by (simp add: Decode_GroupCreateRequest_def)
  have val: "validator (h\<lparr>validator := Struct_GroupCreateRequest\<rparr>) GroupCreateRequest = None"
    by (simp add: Struct_GroupCreateRequest_def)
  have same: "GroupHandler_Create h marshal (Some (JObject kvs)) =
                GroupHandler_Create h marshal (Some (JObject []))"
             "GroupHandler_Create h marshal (Some JNull) =
                GroupHandler_Create h marshal (Some (JObject []))"
    by (simp_all add: GroupHandler_Create_def Decode_GroupCreateRequest_def)
  have other:
    "GroupHandler_Create h marshal (Some v) =
       [Log ErrorLevel ''error decoding json''
          (log h @ [zap_String ''method'' ''Create'', zap_Error UnmarshalTypeError]),
        Render (BadRequest (String_payload ''invalid json string''))]"
    if "Decode_GroupCreateRequest (Some v) = Inl UnmarshalTypeError" for v
    using that by (simp add: GroupHandler_Create_def)
  have "Decode_GroupCreateRequest (Some (JArray vs)) = Inl UnmarshalTypeError"
       "Decode_GroupCreateRequest (Some (JString x)) = Inl UnmarshalTypeError"
       "Decode_GroupCreateRequest (Some (JInt n)) = Inl UnmarshalTypeError"
       "Decode_GroupCreateRequest (Some (JFrac y)) = Inl UnmarshalTypeError"
       "Decode_GroupCreateRequest (Some (JBool b)) = Inl UnmarshalTypeError"
    by (simp_all add: Decode_GroupCreateRequest_def)
  then have
    "GroupHandler_Create h marshal (Some (JArray vs)) =
       [Log ErrorLevel ''error decoding json''
          (log h @ [zap_String ''method'' ''Create'', zap_Error UnmarshalTypeError]),
        Render (BadRequest (String_payload ''invalid json string''))]"
    "GroupHandler_Create h marshal (Some (JString x)) =
       [Log ErrorLevel ''error decoding json''
          (log h @ [zap_String ''method'' ''Create'', zap_Error UnmarshalTypeError]),
        Render (BadRequest (String_payload ''invalid json string''))]"
    "GroupHandler_Create h marshal (Some (JInt n)) =
       [Log ErrorLevel ''error decoding json''
          (log h @ [zap_String ''method'' ''Create'', zap_Error UnmarshalTypeError]),
        Render (BadRequest (String_payload ''invalid json string''))]"
    "GroupHandler_Create h marshal (Some (JFrac y)) =
       [Log ErrorLevel ''error decoding json''
          (log h @ [zap_String ''method'' ''Create'', zap_Error UnmarshalTypeError]),
        Render (BadRequest (String_payload ''invalid json string''))]"
    "GroupHandler_Create h marshal (Some (JBool b)) =
       [Log ErrorLevel ''error decoding json''
          (log h @ [zap_String ''method'' ''Create'', zap_Error UnmarshalTypeError]),
        Render (BadRequest (String_payload ''invalid json string''))]"
    by (simp_all add: other)
  with same dec GroupHandler_Create_saves [OF dec val, of marshal] show ?thesis
    by (simp add: Struct_GroupCreateRequest_def)
qed

end
